theory Spec2Isabelle
  imports Complex_Main "HOL-Library.Sublist"
begin

section \<open>Strings\<close>

text \<open>
  A JavaScript string is a sequence of UTF-16 code units, and \<open>===\<close> on strings compares
  these sequences. Strings are therefore lists of code units; \<open>js\<close> writes an ASCII literal.
\<close>

type_synonym jsstring = "nat list"

definition js :: "string \<Rightarrow> jsstring" where
  "js s = map of_char s"

text \<open>
  \<open>String.prototype.trim\<close> removes the WhiteSpace and LineTerminator code points of
  ECMAScript from both ends: U+0009 to U+000D, U+0020, U+00A0, U+1680, U+2000 to U+200A,
  U+2028, U+2029, U+202F, U+205F, U+3000 and U+FEFF.
\<close>

definition isWhiteSpace :: "nat \<Rightarrow> bool" where
  "isWhiteSpace c =
     ((9 \<le> c \<and> c \<le> 13) \<or> c = 32 \<or> c = 160 \<or> c = 5760 \<or> (8192 \<le> c \<and> c \<le> 8202) \<or>
      c = 8232 \<or> c = 8233 \<or> c = 8239 \<or> c = 8287 \<or> c = 12288 \<or> c = 65279)"

definition trim :: "jsstring \<Rightarrow> jsstring" where
  "trim s = rev (dropWhile isWhiteSpace (rev (dropWhile isWhiteSpace s)))"

text \<open>
  \<open>String.prototype.toLowerCase\<close>, exact on code units below 256 (the letters A to Z and
  the capital letters of Latin-1). Beyond that range the runtime lowers further letters, which
  this model leaves as they are; the only ones it lowers to ASCII are U+212A (to k) and U+0130
  (to i followed by U+0307). The addresses of \<open>mockUsers\<close> are ASCII without k, so a string
  lowers to one of them in the runtime exactly when it does here.
\<close>

definition lowerUnit :: "nat \<Rightarrow> nat" where
  "lowerUnit c =
     (if (65 \<le> c \<and> c \<le> 90) \<or> (192 \<le> c \<and> c \<le> 222 \<and> c \<noteq> 215) then c + 32 else c)"

definition toLowerCase :: "jsstring \<Rightarrow> jsstring" where
  "toLowerCase s = map lowerUnit s"

section \<open>The state of the page\<close>

datatype Role = admin | editor

record mockUser =
  email :: jsstring
  password :: jsstring
  role :: Role
  tfa :: bool

record loginForm =
  email :: jsstring
  password :: jsstring
  code :: jsstring

text \<open>
  \<open>AdminState\<close>. The handlers below read and write the six fields listed here and copy the
  others (preview, animationsEnabled, animationType, sections, formFields, recipients,
  submissions) with \<open>...s\<close>; those are the extension part of the record. The type \<open>'c\<close> is
  \<open>ContentState\<close>, the type of the bundled document \<open>site.json\<close>. Timestamps and the
  failure counter are integer-valued JavaScript numbers (doubles).
\<close>

record 'c AdminState =
  lockUntil :: int
  failedCount :: int
  history :: "'c list"
  future :: "'c list"
  role :: "Role option"
  authenticated :: bool

definition HISTORY_LIMIT :: nat where
  "HISTORY_LIMIT = 20"

definition ADMIN_LOCK_THRESHOLD :: int where
  "ADMIN_LOCK_THRESHOLD = 3"

definition ADMIN_LOCK_MS :: int where
  "ADMIN_LOCK_MS = 5 * 60 * 1000"

datatype Step = StepLogin | StepCode

text \<open>
  The four messages \<open>setAuthError\<close> is given: access temporarily blocked, wrong login or
  password, wrong 2FA code, session out of date.
\<close>

datatype AuthError = Locked | BadCredentials | BadCode | SessionExpired

text \<open>
  The React state the handlers work on: \<open>content\<close>, \<open>adminState\<close> and \<open>now\<close> of
  \<open>Home\<close>, and \<open>step\<close>, \<open>authError\<close>, \<open>authOpen\<close> and \<open>loginForm\<close> of \<open>AdminPanel\<close>.
  Each handler runs to completion on the state of the render it was created in, so a handler is
  a function from state to state.
\<close>

record ('c, 'z) App =
  content :: 'c
  adminState :: "('c, 'z) AdminState_scheme"
  now :: int
  step :: Step
  authError :: "AuthError option"
  authOpen :: bool
  loginForm :: loginForm

text \<open>
  The state at mount, as the \<open>useState\<close> initialisers give it when nothing is persisted:
  the fields of \<open>defaultState\<close> that \<open>AdminState\<close> lists here, the login step, no error,
  the login form open and empty; \<open>c\<close> is the content and \<open>t\<close> the clock at mount.
\<close>

definition defaultAdmin :: "'c AdminState" where
  "defaultAdmin =
     \<lparr>lockUntil = 0, failedCount = 0, history = [], future = [], role = None,
      authenticated = False\<rparr>"

definition initialApp :: "'c \<Rightarrow> int \<Rightarrow> ('c, unit) App" where
  "initialApp c t =
     \<lparr>content = c, adminState = defaultAdmin, now = t, step = StepLogin, authError = None,
      authOpen = True,
      loginForm = \<lparr>loginForm.email = [], password = [], code = []\<rparr>\<rparr>"

section \<open>Content edits and history\<close>

text \<open>
  \<open>structuredClone\<close> (or the JSON round trip that stands in for it) returns a value equal
  to its argument that shares nothing with it. HOL values are immutable, so the copy is the
  value itself.
\<close>

definition structuredClone :: "'c \<Rightarrow> 'c" where
  "structuredClone c = c"

definition pushHistory :: "'c \<Rightarrow> ('c, 'z) AdminState_scheme \<Rightarrow> ('c, 'z) AdminState_scheme" where
  "pushHistory snapshot s =
     s\<lparr>history := take HISTORY_LIMIT (snapshot # history s), future := []\<rparr>"

definition updateContent :: "('c \<Rightarrow> 'c) \<Rightarrow> ('c, 'z) App \<Rightarrow> ('c, 'z) App" where
  "updateContent mutate a =
     (let current = content a;
          snap = structuredClone current;
          next = mutate snap
      in a\<lparr>adminState := pushHistory current (adminState a), content := next\<rparr>)"

definition handleUndo :: "('c, 'z) App \<Rightarrow> ('c, 'z) App" where
  "handleUndo a =
     (let s = adminState a in
      if length (history s) = 0 then a
      else (case history s of
              latest # rest \<Rightarrow>
                a\<lparr>content := latest,
                  adminState := s\<lparr>history := rest,
                                   future := take HISTORY_LIMIT (content a # future s)\<rparr>\<rparr>
            | [] \<Rightarrow> a))"

definition handleRedo :: "('c, 'z) App \<Rightarrow> ('c, 'z) App" where
  "handleRedo a =
     (let s = adminState a in
      if length (future s) = 0 then a
      else (case future s of
              latest # rest \<Rightarrow>
                a\<lparr>content := latest,
                  adminState := s\<lparr>future := rest,
                                   history := take HISTORY_LIMIT (content a # history s)\<rparr>\<rparr>
            | [] \<Rightarrow> a))"

text \<open>A user action on the content: an edit with its mutation, an undo or a redo.\<close>

datatype 'c Action = Edit "'c \<Rightarrow> 'c" | Undo | Redo

fun act :: "'c Action \<Rightarrow> ('c, 'z) App \<Rightarrow> ('c, 'z) App" where
  "act (Edit mutate) a = updateContent mutate a"
| "act Undo a = handleUndo a"
| "act Redo a = handleRedo a"

fun run :: "'c Action list \<Rightarrow> ('c, 'z) App \<Rightarrow> ('c, 'z) App" where
  "run [] a = a"
| "run (x # xs) a = run xs (act x a)"

section \<open>The login gate\<close>

definition mockUsers :: "mockUser list" where
  "mockUsers =
     [\<lparr>mockUser.email = js ''admin@example.com'', password = js ''admin123'',
       role = admin, tfa = True\<rparr>,
      \<lparr>mockUser.email = js ''editor@example.com'', password = js ''editor123'',
       role = editor, tfa = False\<rparr>]"

text \<open>
  \<open>adminLocked\<close> as \<open>Home\<close> computes it (line 837), from \<open>adminState.lockUntil\<close> and the
  state \<open>now\<close>, which a one-second timer refreshes from the clock while a lockout is pending.
\<close>

definition adminLocked :: "('c, 'z) App \<Rightarrow> bool" where
  "adminLocked a = (lockUntil (adminState a) > 0 \<and> now a < lockUntil (adminState a))"

definition findUser :: "loginForm \<Rightarrow> mockUser option" where
  "findUser f =
     List.find
       (\<lambda>u. toLowerCase (mockUser.email u) = toLowerCase (loginForm.email f) \<and>
            mockUser.password u = loginForm.password f)
       mockUsers"

text \<open>
  The sum of two numbers is the double nearest to the exact sum, ties to the even mantissa.
  On the integers below \<open>2 ^ 53\<close> in magnitude it is exact; beyond, \<open>toDouble\<close> keeps 53
  significant bits. The numbers of the model stand for integer-valued doubles; fractions, NaN
  and the infinities are outside it.
\<close>

fun bitlen :: "nat \<Rightarrow> nat" where
  "bitlen n = (if n = 0 then 0 else Suc (bitlen (n div 2)))"

declare bitlen.simps [simp del]

definition toDouble :: "int \<Rightarrow> int" where
  "toDouble n =
     (let m = nat \<bar>n\<bar> in
      if m < 2 ^ 53 then n
      else
        (let e = bitlen m - 53;
             q = m div 2 ^ e;
             r = m mod 2 ^ e;
             q' = (if 2 * r > 2 ^ e \<or> (2 * r = 2 ^ e \<and> odd q) then q + 1 else q)
         in sgn n * int (q' * 2 ^ e)))"

definition jsAdd :: "int \<Rightarrow> int \<Rightarrow> int" where
  "jsAdd x y = toDouble (x + y)"

text \<open>
  What a handler does: the state it leaves and the error it throws, if any. State updates
  queued before a throw are kept.
\<close>

datatype jsError = ReferenceError jsstring | TypeError jsstring

text \<open>
  What the names that \<open>handleLogin\<close> and \<open>handleCode\<close> do not declare themselves resolve
  to where the handlers are evaluated: the value of \<open>adminLocked\<close>, \<open>None\<close> when nothing
  binds the name, and whether the prop \<open>setAdminState\<close> is a function.
\<close>

record PanelEnv =
  adminLockedBinding :: "bool option"
  setAdminStatePassed :: bool

text \<open>
  The environment of the source. \<open>AdminPanel\<close> is declared at module level (line 241) and
  the handlers inside it. The only declaration of \<open>adminLocked\<close> is a \<open>const\<close> local to
  \<open>Home\<close> (line 837): neither \<open>AdminPanel\<close> nor the module binds the name, so reading it
  throws a ReferenceError. \<open>Home\<close> renders \<open>AdminPanel\<close> with the props \<open>onAddFeature\<close>
  and \<open>onAddGallery\<close> only (lines 854 to 857), so \<open>setAdminState\<close> is \<open>undefined\<close>.
\<close>

definition shippedEnv :: PanelEnv where
  "shippedEnv = \<lparr>adminLockedBinding = None, setAdminStatePassed = False\<rparr>"

text \<open>
  The environment the handlers are written for: \<open>adminLocked\<close> bound to the value \<open>Home\<close>
  computes and \<open>setAdminState\<close> passed. It is not the one of the source.
\<close>

definition wiredEnv :: "('c, 'z) App \<Rightarrow> PanelEnv" where
  "wiredEnv a = \<lparr>adminLockedBinding = Some (adminLocked a), setAdminStatePassed = True\<rparr>"

text \<open>\<open>handleLogin\<close>; \<open>dateNow\<close> is the value of \<open>Date.now()\<close> when it runs.\<close>

definition handleLogin ::
  "PanelEnv \<Rightarrow> int \<Rightarrow> ('c, 'z) App \<Rightarrow> ('c, 'z) App \<times> jsError option" where
  "handleLogin env dateNow a =
     (case adminLockedBinding env of
        None \<Rightarrow> (a, Some (ReferenceError (js ''adminLocked'')))
      | Some locked \<Rightarrow>
          if locked then (a\<lparr>authError := Some Locked\<rparr>, None)
          else
            (case findUser (loginForm a) of
               None \<Rightarrow>
                 if setAdminStatePassed env
                 then
                   (a\<lparr>authError := Some BadCredentials,
                      adminState :=
                        (let s = adminState a; failed = jsAdd (failedCount s) 1 in
                         if failed \<ge> ADMIN_LOCK_THRESHOLD
                         then s\<lparr>failedCount := 0, lockUntil := jsAdd dateNow ADMIN_LOCK_MS\<rparr>
                         else s\<lparr>failedCount := failed\<rparr>)\<rparr>,
                    None)
                 else
                   (a\<lparr>authError := Some BadCredentials\<rparr>,
                    Some (TypeError (js ''setAdminState'')))
             | Some found \<Rightarrow>
                 if tfa found then (a\<lparr>step := StepCode, authError := None\<rparr>, None)
                 else if setAdminStatePassed env
                 then
                   (a\<lparr>adminState :=
                        (adminState a)\<lparr>role := Some (mockUser.role found),
                                        authenticated := True, failedCount := 0\<rparr>,
                      authOpen := False, authError := None\<rparr>,
                    None)
                 else (a, Some (TypeError (js ''setAdminState'')))))"

definition handleCode :: "PanelEnv \<Rightarrow> ('c, 'z) App \<Rightarrow> ('c, 'z) App \<times> jsError option" where
  "handleCode env a =
     (case adminLockedBinding env of
        None \<Rightarrow> (a, Some (ReferenceError (js ''adminLocked'')))
      | Some locked \<Rightarrow>
          if locked then (a\<lparr>authError := Some Locked\<rparr>, None)
          else if trim (code (loginForm a)) \<noteq> js ''000000'' \<and>
                  trim (code (loginForm a)) \<noteq> js ''123456''
          then (a\<lparr>authError := Some BadCode\<rparr>, None)
          else
            (case findUser (loginForm a) of
               None \<Rightarrow> (a\<lparr>authError := Some SessionExpired, step := StepLogin\<rparr>, None)
             | Some found \<Rightarrow>
                 if setAdminStatePassed env
                 then
                   (a\<lparr>adminState :=
                        (adminState a)\<lparr>role := Some (mockUser.role found),
                                        authenticated := True, failedCount := 0\<rparr>,
                      authOpen := False, authError := None\<rparr>,
                    None)
                 else (a, Some (TypeError (js ''setAdminState'')))))"

section \<open>The gallery filter\<close>

record GalleryItem =
  title :: jsstring
  description :: jsstring
  category :: jsstring
  src :: jsstring

text \<open>The label of the category that shows everything: the code units U+0412, U+0441, U+0435.\<close>

definition ALL_LABEL :: jsstring where
  "ALL_LABEL = [1042, 1089, 1077]"

definition filteredGallery :: "jsstring \<Rightarrow> 'z GalleryItem_scheme list \<Rightarrow> 'z GalleryItem_scheme list" where
  "filteredGallery flt galleryItems =
     (if flt = ALL_LABEL then galleryItems
      else filter (\<lambda>item. category item = flt) galleryItems)"

section \<open>The contact endpoint\<close>

text \<open>
  A value \<open>JSON.parse\<close> returns. The members of an object are listed in the order of the
  text; when a name occurs twice the later member is the one the object has.
\<close>

datatype json =
  JNull | JBool bool | JNum rat | JStr jsstring | JArr "json list" | JObj "(jsstring \<times> json) list"

text \<open>
  \<open>payload?.k\<close> for the names the handler reads (email, name, message); \<open>None\<close> is
  \<open>undefined\<close>. Through \<open>?.\<close> the value null gives \<open>undefined\<close>, and booleans, numbers,
  strings and arrays have no property of these names.
\<close>

fun getProp :: "json \<Rightarrow> jsstring \<Rightarrow> json option" where
  "getProp (JObj ms) k = map_of (rev ms) k"
| "getProp v k = None"

text \<open>
  What \<open>!\<close> negates: \<open>undefined\<close>, null, false, 0 and the empty string are falsy, every
  other value is truthy.
\<close>

fun truthy :: "json option \<Rightarrow> bool" where
  "truthy None = False"
| "truthy (Some JNull) = False"
| "truthy (Some (JBool b)) = b"
| "truthy (Some (JNum n)) = (n \<noteq> 0)"
| "truthy (Some (JStr s)) = (s \<noteq> [])"
| "truthy (Some (JArr xs)) = True"
| "truthy (Some (JObj ms)) = True"

text \<open>\<open>NextResponse.json(body, {status})\<close>; the status is 200 when none is given.\<close>

record Response =
  status :: nat
  body :: json

text \<open>
  \<open>POST\<close>. Its argument is the outcome of \<open>await request.json()\<close>: the parsed payload, or
  \<open>String(error)\<close> of the error thrown when the body is not JSON.
\<close>

definition POST :: "jsstring + json \<Rightarrow> Response" where
  "POST outcome =
     (case outcome of
        Inr payload \<Rightarrow>
          if \<not> truthy (getProp payload (js ''email'')) \<or>
             \<not> truthy (getProp payload (js ''name'')) \<or>
             \<not> truthy (getProp payload (js ''message''))
          then \<lparr>status = 400, body = JObj [(js ''ok'', JBool False)]\<rparr>
          else \<lparr>status = 200, body = JObj [(js ''ok'', JBool True), (js ''received'', payload)]\<rparr>
      | Inl err \<Rightarrow>
          \<lparr>status = 500, body = JObj [(js ''ok'', JBool False), (js ''error'', JStr err)]\<rparr>)"

text \<open>The response says \<open>ok: true\<close>.\<close>

definition okFlag :: "Response \<Rightarrow> bool" where
  "okFlag r = (getProp (body r) (js ''ok'') = Some (JBool True))"

text \<open>The test the handler makes: the three properties are truthy.\<close>

definition allTruthy :: "json \<Rightarrow> bool" where
  "allTruthy payload =
     (truthy (getProp payload (js ''email'')) \<and> truthy (getProp payload (js ''name'')) \<and>
      truthy (getProp payload (js ''message'')))"

text \<open>
  The condition of the specification, in its words: the payload contains the required string
  fields email, name and message.
\<close>

fun isString :: "json option \<Rightarrow> bool" where
  "isString (Some (JStr s)) = True"
| "isString v = False"

definition requiredStringFields :: "json \<Rightarrow> bool" where
  "requiredStringFields payload =
     (isString (getProp payload (js ''email'')) \<and> isString (getProp payload (js ''name'')) \<and>
      isString (getProp payload (js ''message'')))"

section \<open>Persistence of the admin preferences\<close>

text \<open>
  The initialiser of \<open>adminState\<close> merges a value that was parsed from storage and not
  checked against \<open>AdminState\<close>, so here the state is an object: a map from property names to
  values. \<open>ownProps\<close> gives the own enumerable properties that \<open>...parsed\<close> copies: the
  members of an object, the elements of an array and the code units of a string under their
  decimal indices, nothing for null, booleans and numbers.
\<close>

type_synonym object = "jsstring \<rightharpoonup> json"

fun decimal :: "nat \<Rightarrow> jsstring" where
  "decimal n = (if n < 10 then [48 + n] else decimal (n div 10) @ [48 + n mod 10])"

fun ownProps :: "json \<Rightarrow> object" where
  "ownProps (JObj ms) = map_of (rev ms)"
| "ownProps (JArr xs) = map_of (zip (map decimal [0..<length xs]) xs)"
| "ownProps (JStr s) = map_of (zip (map decimal [0..<length s]) (map (\<lambda>c. JStr [c]) s))"
| "ownProps v = Map.empty"

definition mkSection :: "string \<Rightarrow> jsstring \<Rightarrow> json" where
  "mkSection i l =
     JObj [(js ''id'', JStr (js i)), (js ''label'', JStr l), (js ''enabled'', JBool True)]"

definition mkField :: "bool \<Rightarrow> jsstring \<Rightarrow> json" where
  "mkField e l = JObj [(js ''enabled'', JBool e), (js ''label'', JStr l)]"

text \<open>\<open>defaultState\<close>; the Cyrillic labels are given by their code units.\<close>

definition defaultState :: object where
  "defaultState =
     map_of
      [(js ''preview'', JStr (js ''desktop'')),
       (js ''animationsEnabled'', JBool True),
       (js ''animationType'', JStr (js ''fade'')),
       (js ''sections'',
          JArr [mkSection ''hero'' (js ''Hero''),
                mkSection ''features''
                  [1055, 1088, 1077, 1080, 1084, 1091, 1097, 1077, 1089, 1090, 1074, 1072],
                mkSection ''services''
                  [1060, 1091, 1085, 1082, 1094, 1080, 1086, 1085, 1072, 1083],
                mkSection ''gallery'' [1043, 1072, 1083, 1077, 1088, 1077, 1103],
                mkSection ''contact'' [1050, 1086, 1085, 1090, 1072, 1082, 1090, 1099]]),
       (js ''formFields'',
          JObj [(js ''name'', mkField True [1048, 1084, 1103]),
                (js ''email'', mkField True (js ''Email'')),
                (js ''phone'', mkField False [1058, 1077, 1083, 1077, 1092, 1086, 1085]),
                (js ''message'',
                   mkField True [1057, 1086, 1086, 1073, 1097, 1077, 1085, 1080, 1077])]),
       (js ''recipients'',
          JObj [(js ''email'', JStr (js ''hello@example.com'')),
                (js ''crm'', JStr (js ''https://crm.local/webhook''))]),
       (js ''submissions'', JArr []),
       (js ''lockUntil'', JNum 0),
       (js ''failedCount'', JNum 0),
       (js ''history'', JArr []),
       (js ''future'', JArr []),
       (js ''role'', JNull),
       (js ''authenticated'', JBool False)]"

text \<open>
  What the initialiser finds under \<open>ADMIN_KEY\<close>: nothing (no window, no item, or the empty
  string, which is falsy), a text \<open>JSON.parse\<close> throws on, or a text it parses.
\<close>

datatype stored = Absent | Unparsable | Parsed json

definition adminInit :: "stored \<Rightarrow> object" where
  "adminInit raw =
     (case raw of
        Parsed parsed \<Rightarrow>
          (defaultState ++ ownProps parsed)(js ''history'' \<mapsto> JArr [], js ''future'' \<mapsto> JArr [])
      | Unparsable \<Rightarrow> defaultState
      | Absent \<Rightarrow> defaultState)"

text \<open>
  \<open>toStore\<close> as \<open>JSON.stringify\<close> writes it and \<open>JSON.parse\<close> reads it back: the six
  properties of the object literal, without those whose value is \<open>undefined\<close>.
\<close>

definition persistedKeys :: "jsstring list" where
  "persistedKeys =
     [js ''preview'', js ''animationsEnabled'', js ''animationType'', js ''sections'',
      js ''formFields'', js ''recipients'']"

definition toStore :: "object \<Rightarrow> json" where
  "toStore s = JObj (List.map_filter (\<lambda>k. map_option (Pair k) (s k)) persistedKeys)"

section \<open>Inputs of the worked examples\<close>

text \<open>The \<open>onChange\<close> handlers of the login form.\<close>

definition setLoginForm :: "loginForm \<Rightarrow> ('c, 'z) App \<Rightarrow> ('c, 'z) App" where
  "setLoginForm f a = a\<lparr>loginForm := f\<rparr>"

text \<open>
  The credentials of the first account (with capitals in the address) and a wrong password
  for it; \<open>c\<close> is the content of the code field.
\<close>

definition adminForm :: "jsstring \<Rightarrow> loginForm" where
  "adminForm c =
     \<lparr>loginForm.email = js ''Admin@Example.com'', password = js ''admin123'', code = c\<rparr>"

definition wrongForm :: "jsstring \<Rightarrow> loginForm" where
  "wrongForm c =
     \<lparr>loginForm.email = js ''admin@example.com'', password = js ''Admin123'', code = c\<rparr>"

text \<open>
  The page after mount at clock 1000 with the form holding \<open>f\<close>, in the login step and in
  the code step (the step \<open>setStep("code")\<close> sets).
\<close>

definition atLogin :: "loginForm \<Rightarrow> (nat, unit) App" where
  "atLogin f = setLoginForm f (initialApp 0 1000)"

definition atCode :: "loginForm \<Rightarrow> (nat, unit) App" where
  "atCode f = (setLoginForm f (initialApp 0 1000))\<lparr>step := StepCode\<rparr>"

definition sampleItems :: "GalleryItem list" where
  "sampleItems =
     [\<lparr>title = js ''Dashboard'', description = js ''Panels'', category = js ''UI'',
       src = js ''/images/gallery-1.svg''\<rparr>,
      \<lparr>title = js ''Clip'', description = js ''Intro'', category = js ''Motion'',
       src = js ''/images/gallery-2.svg''\<rparr>,
      \<lparr>title = js ''Forms'', description = js ''Inputs'', category = js ''UI'',
       src = js ''/images/gallery-5.svg''\<rparr>]"

section \<open>Properties of the history manager\<close>

lemma run_append: "run (xs @ ys) a = run ys (run xs a)"
  by (induction xs arbitrary: a) simp_all

lemma handleUndo_Nil: "history (adminState a) = [] \<Longrightarrow> handleUndo a = a"
  by (simp add: handleUndo_def)

lemma handleUndo_Cons:
  "history (adminState a) = latest # rest \<Longrightarrow>
   handleUndo a =
     a\<lparr>content := latest,
       adminState := (adminState a)\<lparr>history := rest,
                          future := take 20 (content a # future (adminState a))\<rparr>\<rparr>"
  by (simp add: handleUndo_def HISTORY_LIMIT_def Let_def)

lemma handleRedo_Nil: "future (adminState a) = [] \<Longrightarrow> handleRedo a = a"
  by (simp add: handleRedo_def)

lemma handleRedo_Cons:
  "future (adminState a) = latest # rest \<Longrightarrow>
   handleRedo a =
     a\<lparr>content := latest,
       adminState := (adminState a)\<lparr>future := rest,
                          history := take 20 (content a # history (adminState a))\<rparr>\<rparr>"
  by (simp add: handleRedo_def HISTORY_LIMIT_def Let_def)

lemma updateContent_eq:
  "updateContent mutate a =
     a\<lparr>adminState := (adminState a)\<lparr>history := take 20 (content a # history (adminState a)),
                          future := []\<rparr>,
       content := mutate (content a)\<rparr>"
  by (simp add: updateContent_def pushHistory_def HISTORY_LIMIT_def structuredClone_def Let_def)

text \<open>
  After \<open>n\<close> undos the content is the \<open>n\<close>-th entry of the history stack, or the last
  one when the stack is shorter, or the content itself when there is nothing to undo.
\<close>

lemma content_undos:
  "content (run (replicate n Undo) a) =
     (case take n (history (adminState a)) of [] \<Rightarrow> content a | x # xs \<Rightarrow> last (x # xs))"
proof (induction n arbitrary: a)
  case 0
  show ?case by simp
next
  case (Suc n)
  show ?case
  proof (cases "history (adminState a)")
    case Nil
    then show ?thesis using Suc.IH [of a] by (simp add: handleUndo_Nil)
  next
    case (Cons latest rest)
    then show ?thesis
      using Suc.IH [of "handleUndo a"]
      by (simp add: handleUndo_Cons split: list.splits)
  qed
qed

lemma undo_after_edit:
  "content (handleUndo (updateContent f a)) = content a \<and>
   history (adminState (handleUndo (updateContent f a))) = take 19 (history (adminState a))"
  by (simp add: updateContent_eq handleUndo_Cons)

text \<open>
  C1, as stated: any sequence of edits followed by \<open>N\<close> undos, \<open>N\<close> at most the number of
  edits, gives the content that held before the last \<open>N\<close> edits. The history stack keeps 20
  snapshots, so the statement fails beyond 20: after 21 edits of a counter that starts at 0,
  21 undos stop at 1, the content after the first edit, and not at 0.
\<close>

theorem undo_restores_counterexample:
  "content (run (map Edit (replicate 21 Suc) @ replicate 21 Undo) (initialApp 0 0)) \<noteq>
   content (run (map Edit (take (21 - 21) (replicate 21 Suc))) (initialApp 0 0))"
  by code_simp

text \<open>
  C1, amended: any sequence of edits followed by \<open>N\<close> undos, \<open>N\<close> at most the number of
  edits and at most 20, gives the content that held before the last \<open>N\<close> edits, whatever
  the state the edits started from.
\<close>

theorem undo_restores:
  "n \<le> length fs \<Longrightarrow> n \<le> 20 \<Longrightarrow>
   content (run (map Edit fs @ replicate n Undo) a) =
   content (run (map Edit (take (length fs - n) fs)) a)"
proof (induction n arbitrary: fs)
  case 0
  show ?case by simp
next
  case (Suc n)
  from Suc.prems obtain fs' f where fs: "fs = fs' @ [f]"
    by (cases fs rule: rev_cases) auto
  let ?s = "run (map Edit fs') a"
  let ?u = "handleUndo (updateContent f ?s)"
  have n19: "n \<le> 19" using Suc.prems by simp
  have "content (run (map Edit fs @ replicate (Suc n) Undo) a) =
        content (run (replicate n Undo) ?u)"
    by (simp add: fs run_append)
  also have "\<dots> = content (run (replicate n Undo) ?s)"
    using n19 undo_after_edit [of f ?s]
    by (simp add: content_undos min_def split: list.splits)
  also have "\<dots> = content (run (map Edit fs' @ replicate n Undo) a)"
    by (simp add: run_append)
  also have "\<dots> = content (run (map Edit (take (length fs' - n) fs')) a)"
    using Suc.prems by (intro Suc.IH) (simp_all add: fs)
  also have "take (length fs' - n) fs' = take (length fs - Suc n) fs"
    by (simp add: fs)
  finally show ?case .
qed

theorem undo_restores_witness:
  "(2::nat) \<le> length [Suc, Suc, Suc] \<and> (2::nat) \<le> 20 \<and>
   content (run (map Edit [Suc, Suc, Suc] @ replicate 2 Undo) (initialApp 0 0)) =
   content (run (map Edit (take (length [Suc, Suc, Suc] - 2) [Suc, Suc, Suc])) (initialApp 0 0)) \<and>
   content (run (map Edit [Suc, Suc, Suc] @ replicate 2 Undo) (initialApp 0 0)) = 1"
proof -
  have h1: "(2::nat) \<le> length [Suc, Suc, Suc]" by simp
  have h2: "(2::nat) \<le> 20" by simp
  have v: "content (run (map Edit (take (length [Suc, Suc, Suc] - 2) [Suc, Suc, Suc]))
             (initialApp 0 0)) = 1"
    by code_simp
  show ?thesis
    using undo_restores [OF h1 h2, of "initialApp 0 0"] h1 h2 v by simp
qed

text \<open>
  C2: an edit installs the mutation applied to a deep clone of the current content, pushes
  the content from before the mutation on the history stack, which is then cut to its 20
  newest entries (the oldest is dropped), and empties the future stack; everything else is
  unchanged; and a redo right after an edit changes nothing.
\<close>

theorem updateContent_spec:
  "updateContent mutate a =
     a\<lparr>adminState := (adminState a)\<lparr>history := take 20 (content a # history (adminState a)),
                          future := []\<rparr>,
       content := mutate (structuredClone (content a))\<rparr> \<and>
   structuredClone (content a) = content a \<and>
   take 20 (content a # history (adminState a)) = content a # take 19 (history (adminState a)) \<and>
   length (history (adminState (updateContent mutate a))) \<le> 20 \<and>
   handleRedo (updateContent mutate a) = updateContent mutate a"
proof -
  have "future (adminState (updateContent mutate a)) = []"
    by (simp add: updateContent_eq)
  then have "handleRedo (updateContent mutate a) = updateContent mutate a"
    by (rule handleRedo_Nil)
  then show ?thesis
    by (simp add: updateContent_eq structuredClone_def)
qed

theorem updateContent_spec_witness:
  "content (updateContent Suc (initialApp 4 0)) = 5 \<and>
   history (adminState (updateContent Suc (initialApp 4 0))) = [4] \<and>
   future (adminState (updateContent Suc (initialApp 4 0))) = [] \<and>
   handleRedo (updateContent Suc (initialApp 4 0)) = updateContent Suc (initialApp 4 0)"
proof -
  let ?a = "initialApp (4::nat) 0"
  note spec = updateContent_spec [of Suc ?a]
  have u: "updateContent Suc ?a =
     ?a\<lparr>adminState := (adminState ?a)\<lparr>history := take 20 (content ?a # history (adminState ?a)),
                          future := []\<rparr>,
       content := Suc (structuredClone (content ?a))\<rparr>"
    using spec by (rule conjunct1)
  have r: "handleRedo (updateContent Suc ?a) = updateContent Suc ?a"
    using spec by blast
  have c: "content (updateContent Suc ?a) = 5"
    by (subst u) (simp add: initialApp_def defaultAdmin_def structuredClone_def)
  have h: "history (adminState (updateContent Suc ?a)) = [4]"
    by (subst u) (simp add: initialApp_def defaultAdmin_def)
  have f: "future (adminState (updateContent Suc ?a)) = []"
    by (subst u) (simp add: initialApp_def defaultAdmin_def)
  show ?thesis using r c h f by blast
qed

text \<open>
  C3: with a non-empty history stack, undo pops its newest entry, pushes the current content
  on the future stack (cut to 20 entries) and installs the popped entry as the content; redo
  does the same with the two stacks exchanged; undo on an empty history stack and redo on an
  empty future stack leave the whole state as it is.
\<close>

theorem undo_redo_spec:
  "(history (adminState a) = latest # rest \<longrightarrow>
      handleUndo a =
        a\<lparr>content := latest,
          adminState := (adminState a)\<lparr>history := rest,
                             future := take 20 (content a # future (adminState a))\<rparr>\<rparr>) \<and>
   (future (adminState a) = latest' # rest' \<longrightarrow>
      handleRedo a =
        a\<lparr>content := latest',
          adminState := (adminState a)\<lparr>future := rest',
                             history := take 20 (content a # history (adminState a))\<rparr>\<rparr>) \<and>
   (history (adminState a) = [] \<longrightarrow> handleUndo a = a) \<and>
   (future (adminState a) = [] \<longrightarrow> handleRedo a = a)"
  by (simp add: handleUndo_Nil handleUndo_Cons handleRedo_Nil handleRedo_Cons)

theorem undo_redo_spec_witness:
  "history (adminState (run [Edit Suc, Edit Suc, Undo] (initialApp 0 0))) = [0] \<and>
   future (adminState (run [Edit Suc, Edit Suc, Undo] (initialApp 0 0))) = [2] \<and>
   content (handleUndo (run [Edit Suc, Edit Suc, Undo] (initialApp 0 0))) = 0 \<and>
   future (adminState (handleUndo (run [Edit Suc, Edit Suc, Undo] (initialApp 0 0)))) = [1, 2] \<and>
   content (handleRedo (run [Edit Suc, Edit Suc, Undo] (initialApp 0 0))) = 2 \<and>
   history (adminState (handleRedo (run [Edit Suc, Edit Suc, Undo] (initialApp 0 0)))) = [1, 0] \<and>
   history (adminState (initialApp (0::nat) 0)) = [] \<and>
   future (adminState (initialApp (0::nat) 0)) = [] \<and>
   handleUndo (initialApp (0::nat) 0) = initialApp 0 0 \<and>
   handleRedo (initialApp (0::nat) 0) = initialApp 0 0"
proof -
  let ?a = "run [Edit Suc, Edit Suc, Undo] (initialApp 0 0)"
  have h: "history (adminState ?a) = [0]" by code_simp
  have f: "future (adminState ?a) = [2]" by code_simp
  have c: "content ?a = 1" by code_simp
  have h0: "history (adminState (initialApp (0::nat) 0)) = []"
    by (simp add: initialApp_def defaultAdmin_def)
  have f0: "future (adminState (initialApp (0::nat) 0)) = []"
    by (simp add: initialApp_def defaultAdmin_def)
  show ?thesis
    using undo_redo_spec [of ?a 0 "[]" 2 "[]"]
      undo_redo_spec [where a = "initialApp (0::nat) 0"]
      h f c h0 f0
    by simp
qed

text \<open>Each action keeps both stacks within 20 entries, so every sequence of actions does.\<close>

lemma act_bounded:
  "length (history (adminState a)) \<le> 20 \<and> length (future (adminState a)) \<le> 20 \<Longrightarrow>
   length (history (adminState (act x a))) \<le> 20 \<and> length (future (adminState (act x a))) \<le> 20"
proof (cases x)
  case (Edit mutate)
  then show ?thesis by (simp add: updateContent_eq)
next
  case Undo
  assume b: "length (history (adminState a)) \<le> 20 \<and> length (future (adminState a)) \<le> 20"
  show ?thesis
  proof (cases "history (adminState a)")
    case Nil
    then show ?thesis using b Undo by (simp add: handleUndo_Nil)
  next
    case (Cons latest rest)
    then show ?thesis using b Undo by (simp add: handleUndo_Cons)
  qed
next
  case Redo
  assume b: "length (history (adminState a)) \<le> 20 \<and> length (future (adminState a)) \<le> 20"
  show ?thesis
  proof (cases "future (adminState a)")
    case Nil
    then show ?thesis using b Redo by (simp add: handleRedo_Nil)
  next
    case (Cons latest rest)
    then show ?thesis using b Redo by (simp add: handleRedo_Cons)
  qed
qed

lemma run_bounded:
  "length (history (adminState a)) \<le> 20 \<and> length (future (adminState a)) \<le> 20 \<Longrightarrow>
   length (history (adminState (run xs a))) \<le> 20 \<and> length (future (adminState (run xs a))) \<le> 20"
proof (induction xs arbitrary: a)
  case Nil
  then show ?case by simp
next
  case (Cons x xs)
  from Cons.prems have "length (history (adminState (act x a))) \<le> 20 \<and>
      length (future (adminState (act x a))) \<le> 20"
    by (rule act_bounded)
  then show ?case using Cons.IH [of "act x a"] by simp
qed

text \<open>
  C4: whatever sequence of edits, undos and redos is run from empty stacks, the history
  stack and the future stack hold at most 20 entries each.
\<close>

theorem stacks_bounded:
  "length (history (adminState
      (run xs (a\<lparr>adminState := (adminState a)\<lparr>history := [], future := []\<rparr>\<rparr>)))) \<le> 20 \<and>
   length (future (adminState
      (run xs (a\<lparr>adminState := (adminState a)\<lparr>history := [], future := []\<rparr>\<rparr>)))) \<le> 20"
  by (rule run_bounded) simp

theorem stacks_bounded_witness:
  "length (history (adminState (run (replicate 25 (Edit Suc) @ replicate 25 Undo)
      (initialApp 0 0)))) \<le> 20 \<and>
   length (future (adminState (run (replicate 25 (Edit Suc) @ replicate 25 Undo)
      (initialApp 0 0)))) \<le> 20 \<and>
   length (history (adminState (run (replicate 25 (Edit Suc)) (initialApp 0 0)))) = 20 \<and>
   length (future (adminState (run (replicate 25 (Edit Suc) @ replicate 25 Undo)
      (initialApp 0 0)))) = 20"
proof -
  have e: "(initialApp (0::nat) 0)\<lparr>adminState :=
      (adminState (initialApp (0::nat) 0))\<lparr>history := [], future := []\<rparr>\<rparr> = initialApp 0 0"
    by (simp add: initialApp_def defaultAdmin_def)
  have v1: "length (history (adminState (run (replicate 25 (Edit Suc)) (initialApp 0 0)))) = 20"
    by code_simp
  have v2: "length (future (adminState (run (replicate 25 (Edit Suc) @ replicate 25 Undo)
      (initialApp 0 0)))) = 20"
    by code_simp
  show ?thesis
    using stacks_bounded [of "replicate 25 (Edit Suc) @ replicate 25 Undo" "initialApp 0 0"] v1 v2
    by (simp only: e)
qed

section \<open>Properties of the login gate\<close>

lemma findUser_admin:
  "findUser (adminForm c) =
     Some \<lparr>mockUser.email = js ''admin@example.com'', password = js ''admin123'',
            role = admin, tfa = True\<rparr>"
  by (simp add: findUser_def adminForm_def mockUsers_def toLowerCase_def lowerUnit_def js_def)

lemma findUser_wrong: "findUser (wrongForm c) = None"
  by (simp add: findUser_def wrongForm_def mockUsers_def toLowerCase_def lowerUnit_def js_def)

lemma form_code: "code (adminForm c) = c \<and> code (wrongForm c) = c"
  by (simp add: adminForm_def wrongForm_def)

lemma trim_code: "trim (js ''000000'') = js ''000000''"
  by (simp add: trim_def isWhiteSpace_def js_def)

lemma examples_state:
  "adminState (atLogin f) = defaultAdmin \<and> step (atLogin f) = StepLogin \<and>
   authError (atLogin f) = None \<and> loginForm (atLogin f) = f \<and>
   adminState (atCode f) = defaultAdmin \<and> step (atCode f) = StepCode \<and>
   authError (atCode f) = None \<and> loginForm (atCode f) = f"
  by (simp add: atLogin_def atCode_def setLoginForm_def initialApp_def)

text \<open>In the environment of the source both handlers throw at once and leave the state.\<close>

lemma handleLogin_shipped:
  "handleLogin shippedEnv t a = (a, Some (ReferenceError (js ''adminLocked'')))"
  by (simp add: handleLogin_def shippedEnv_def)

lemma handleCode_shipped:
  "handleCode shippedEnv a = (a, Some (ReferenceError (js ''adminLocked'')))"
  by (simp add: handleCode_def shippedEnv_def)

text \<open>
  With \<open>adminLocked\<close> and \<open>setAdminState\<close> bound as the handlers expect, the bodies do
  what they are written for. \<open>handleLogin\<close>: under a lockout the locked error and nothing
  else; otherwise, when no account matches, the failure counter plus one, or at 3 the counter
  0 and the lockout expiry five minutes after the clock.
\<close>

lemma toDouble_exact: "\<bar>n\<bar> < 2 ^ 53 \<Longrightarrow> toDouble n = n"
  by (simp add: toDouble_def Let_def nat_less_iff)

lemma jsAdd_rounds:
  "jsAdd 2 1 = 3 \<and> jsAdd 9007199254740992 1 = 9007199254740992 \<and>
   jsAdd (- 9007199254740994) 1 = - 9007199254740992 \<and>
   jsAdd 9007199254740994 1 = 9007199254740996"
  by (simp add: jsAdd_def toDouble_def bitlen.simps Let_def)

lemma handleLogin_wired:
  "\<bar>failedCount (adminState a) + 1\<bar> < 2 ^ 53 \<Longrightarrow> \<bar>t + 5 * 60 * 1000\<bar> < 2 ^ 53 \<Longrightarrow>
   (adminLocked a \<longrightarrow> handleLogin (wiredEnv a) t a = (a\<lparr>authError := Some Locked\<rparr>, None)) \<and>
   (\<not> adminLocked a \<and> findUser (loginForm a) = None \<and> failedCount (adminState a) + 1 < 3 \<longrightarrow>
      handleLogin (wiredEnv a) t a =
        (a\<lparr>authError := Some BadCredentials,
           adminState := (adminState a)\<lparr>failedCount := failedCount (adminState a) + 1\<rparr>\<rparr>,
         None)) \<and>
   (\<not> adminLocked a \<and> findUser (loginForm a) = None \<and> failedCount (adminState a) + 1 \<ge> 3 \<longrightarrow>
      handleLogin (wiredEnv a) t a =
        (a\<lparr>authError := Some BadCredentials,
           adminState := (adminState a)\<lparr>failedCount := 0, lockUntil := t + 5 * 60 * 1000\<rparr>\<rparr>,
         None))"
  by (simp add: handleLogin_def wiredEnv_def jsAdd_def toDouble_exact ADMIN_LOCK_THRESHOLD_def
      ADMIN_LOCK_MS_def Let_def)

text \<open>
  \<open>handleCode\<close>, bound likewise: under a lockout the locked error; otherwise a code whose
  trimmed value is neither literal gives the wrong-code error, a code whose trimmed value is
  one of them authenticates with the role of the matching account, or, when no account
  matches any more, gives the session-expired error and goes back to the login step.
\<close>

lemma handleCode_wired:
  "(adminLocked a \<longrightarrow> handleCode (wiredEnv a) a = (a\<lparr>authError := Some Locked\<rparr>, None)) \<and>
   (\<not> adminLocked a \<and> trim (code (loginForm a)) \<noteq> js ''000000'' \<and>
    trim (code (loginForm a)) \<noteq> js ''123456'' \<longrightarrow>
      handleCode (wiredEnv a) a = (a\<lparr>authError := Some BadCode\<rparr>, None)) \<and>
   (\<not> adminLocked a \<and>
    (trim (code (loginForm a)) = js ''000000'' \<or> trim (code (loginForm a)) = js ''123456'') \<and>
    findUser (loginForm a) = Some u \<longrightarrow>
      handleCode (wiredEnv a) a =
        (a\<lparr>adminState := (adminState a)\<lparr>role := Some (mockUser.role u), authenticated := True,
                            failedCount := 0\<rparr>,
           authOpen := False, authError := None\<rparr>,
         None)) \<and>
   (\<not> adminLocked a \<and>
    (trim (code (loginForm a)) = js ''000000'' \<or> trim (code (loginForm a)) = js ''123456'') \<and>
    findUser (loginForm a) = None \<longrightarrow>
      handleCode (wiredEnv a) a =
        (a\<lparr>authError := Some SessionExpired, step := StepLogin\<rparr>, None))"
  by (auto simp add: handleCode_def wiredEnv_def)

text \<open>
  C5: a login attempt whose email and password match no account increments the failure
  counter, the attempt that takes it to 3 sets the lockout expiry five minutes ahead and the
  counter to 0, and while the time is before the expiry every login attempt gets the locked
  error. The handler of the source does none of it: its first statement reads
  \<open>adminLocked\<close>, which nothing binds there, so every attempt, at any clock \<open>t\<close> and in any
  state \<open>a\<close>, throws a ReferenceError and leaves the failure counter, the lockout expiry and
  the error as they were. After mount, a wrong password leaves the counter at 0, where the
  claim has 1, and shows no error.
\<close>

theorem handleLogin_unbound:
  "snd (handleLogin shippedEnv t a) = Some (ReferenceError (js ''adminLocked'')) \<and>
   fst (handleLogin shippedEnv t a) = a \<and>
   failedCount (adminState (fst (handleLogin shippedEnv t a))) = failedCount (adminState a) \<and>
   lockUntil (adminState (fst (handleLogin shippedEnv t a))) = lockUntil (adminState a) \<and>
   authError (fst (handleLogin shippedEnv t a)) = authError a \<and>
   findUser (loginForm (atLogin (wrongForm []))) = None \<and>
   failedCount (adminState (atLogin (wrongForm []))) = 0 \<and>
   failedCount (adminState (fst (handleLogin shippedEnv 1000 (atLogin (wrongForm []))))) = 0 \<and>
   authError (fst (handleLogin shippedEnv 1000 (atLogin (wrongForm [])))) = None"
  by (simp add: handleLogin_shipped examples_state findUser_wrong defaultAdmin_def)

text \<open>
  C6: in the code step with the credentials of the account that needs a second factor, a
  code other than 000000 and 123456 leaves the session unauthenticated, and the code 000000
  (or 123456) sets \<open>authenticated\<close>, sets \<open>role\<close> to the role of the account and resets
  the failure counter. The handler of the source never authenticates: its first statement
  reads \<open>adminLocked\<close>, which nothing binds there, so in any state \<open>a\<close> it throws a
  ReferenceError before it looks at the code, and \<open>authenticated\<close> and \<open>role\<close> stay as they
  were. With the credentials of the first account and the code 000000 the session stays
  unauthenticated with no role, where the claim has it authenticated as admin; and the login
  click that should lead to the code step throws in the same way and leaves the login step.
\<close>

theorem handleCode_unbound_code:
  "snd (handleCode shippedEnv a) = Some (ReferenceError (js ''adminLocked'')) \<and>
   authenticated (adminState (fst (handleCode shippedEnv a))) = authenticated (adminState a) \<and>
   role (adminState (fst (handleCode shippedEnv a))) = role (adminState a) \<and>
   findUser (loginForm (atCode (adminForm (js ''000000'')))) =
     Some \<lparr>mockUser.email = js ''admin@example.com'', password = js ''admin123'',
            role = admin, tfa = True\<rparr> \<and>
   trim (code (loginForm (atCode (adminForm (js ''000000''))))) = js ''000000'' \<and>
   authenticated (adminState (fst (handleCode shippedEnv (atCode (adminForm (js ''000000'')))))) =
     False \<and>
   role (adminState (fst (handleCode shippedEnv (atCode (adminForm (js ''000000'')))))) = None \<and>
   snd (handleLogin shippedEnv 1000 (atLogin (adminForm []))) =
     Some (ReferenceError (js ''adminLocked'')) \<and>
   step (fst (handleLogin shippedEnv 1000 (atLogin (adminForm [])))) = StepLogin"
  by (simp add: handleCode_shipped handleLogin_shipped examples_state findUser_admin
      defaultAdmin_def form_code trim_code)


section \<open>Properties of the contact endpoint\<close>

lemma ok_name: "js ''ok'' \<noteq> js ''error'' \<and> js ''ok'' \<noteq> js ''received''"
  by (simp add: js_def)

text \<open>
  C8, as stated: the handler answers \<open>ok: true\<close> exactly when the body parses and contains
  the required string fields email, name and message. It tests truthiness, not type or
  presence: a payload whose three properties are the number 1, true and an empty array, none
  of them a string, is accepted, and one with the three string fields, the email empty, is
  rejected with status 400.
\<close>

theorem POST_counterexample:
  "okFlag (POST (Inr (JObj [(js ''email'', JNum 1), (js ''name'', JBool True),
      (js ''message'', JArr [])]))) \<and>
   \<not> requiredStringFields (JObj [(js ''email'', JNum 1), (js ''name'', JBool True),
      (js ''message'', JArr [])]) \<and>
   requiredStringFields (JObj [(js ''email'', JStr []), (js ''name'', JStr (js ''Ann'')),
      (js ''message'', JStr (js ''hello''))]) \<and>
   \<not> okFlag (POST (Inr (JObj [(js ''email'', JStr []), (js ''name'', JStr (js ''Ann'')),
      (js ''message'', JStr (js ''hello''))]))) \<and>
   status (POST (Inr (JObj [(js ''email'', JStr []), (js ''name'', JStr (js ''Ann'')),
      (js ''message'', JStr (js ''hello''))]))) = 400"
  by (simp add: POST_def okFlag_def requiredStringFields_def js_def)

text \<open>
  C8, amended: when the body does not parse the handler answers \<open>ok: false\<close> with status
  500; when it parses and the properties email, name and message of the payload are all
  truthy (of any type) it answers \<open>ok: true\<close> with status 200; when it parses and one of
  them is falsy, in particular missing, it answers \<open>ok: false\<close> with status 400; so the
  answer is \<open>ok: true\<close> exactly when the body parses and the three properties are truthy.
\<close>

theorem POST_spec:
  "status (POST (Inl e)) = 500 \<and> \<not> okFlag (POST (Inl e)) \<and>
   (allTruthy p \<longrightarrow> status (POST (Inr p)) = 200 \<and> okFlag (POST (Inr p))) \<and>
   (\<not> allTruthy p \<longrightarrow> status (POST (Inr p)) = 400 \<and> \<not> okFlag (POST (Inr p))) \<and>
   (getProp p (js ''email'') = None \<or> getProp p (js ''name'') = None \<or>
    getProp p (js ''message'') = None \<longrightarrow>
      status (POST (Inr p)) = 400 \<and> \<not> okFlag (POST (Inr p))) \<and>
   (okFlag (POST r) \<longleftrightarrow> (case r of Inr q \<Rightarrow> allTruthy q | Inl x \<Rightarrow> False))"
  using ok_name by (auto simp add: POST_def okFlag_def allTruthy_def split: sum.splits)

theorem POST_spec_witness:
  "status (POST (Inl (js ''SyntaxError''))) = 500 \<and>
   status (POST (Inr (JObj [(js ''name'', JStr (js ''Ann'')), (js ''email'', JStr (js ''a@b.c'')),
      (js ''message'', JStr (js ''hello''))]))) = 200 \<and>
   okFlag (POST (Inr (JObj [(js ''name'', JStr (js ''Ann'')), (js ''email'', JStr (js ''a@b.c'')),
      (js ''message'', JStr (js ''hello''))]))) \<and>
   status (POST (Inr (JObj [(js ''name'', JStr (js ''Ann'')),
      (js ''message'', JStr (js ''hello''))]))) = 400 \<and>
   status (POST (Inr (JObj [(js ''name'', JStr (js ''Ann'')), (js ''email'', JNum 0),
      (js ''message'', JStr (js ''hello''))]))) = 400"
proof -
  let ?full = "JObj [(js ''name'', JStr (js ''Ann'')), (js ''email'', JStr (js ''a@b.c'')),
      (js ''message'', JStr (js ''hello''))]"
  let ?part = "JObj [(js ''name'', JStr (js ''Ann'')), (js ''message'', JStr (js ''hello''))]"
  let ?zero = "JObj [(js ''name'', JStr (js ''Ann'')), (js ''email'', JNum 0),
      (js ''message'', JStr (js ''hello''))]"
  have t: "allTruthy ?full"
    by (simp add: allTruthy_def js_def)
  have m: "getProp ?part (js ''email'') = None"
    by (simp add: js_def)
  have z: "\<not> allTruthy ?zero"
    by (simp add: allTruthy_def js_def)
  have "status (POST (Inl (js ''SyntaxError''))) = 500"
    using POST_spec [of "js ''SyntaxError''"] by blast
  moreover have "status (POST (Inr ?full)) = 200 \<and> okFlag (POST (Inr ?full))"
    using POST_spec [of _ ?full] t by blast
  moreover have "status (POST (Inr ?part)) = 400"
    using POST_spec [of _ ?part] m by blast
  moreover have "status (POST (Inr ?zero)) = 400"
    using POST_spec [of _ ?zero] z by blast
  ultimately show ?thesis by blast
qed

section \<open>Properties of the gallery filter\<close>

text \<open>
  C9: for every list of gallery items, the filter with the category that shows everything
  returns the list unchanged, and with any other category it returns exactly the items whose
  category is that string, in their original order.
\<close>

theorem filteredGallery_spec:
  "filteredGallery ALL_LABEL galleryItems = galleryItems \<and>
   (flt \<noteq> ALL_LABEL \<longrightarrow>
      filteredGallery flt galleryItems = filter (\<lambda>item. category item = flt) galleryItems \<and>
      set (filteredGallery flt galleryItems) = {item \<in> set galleryItems. category item = flt} \<and>
      subseq (filteredGallery flt galleryItems) galleryItems)"
  by (simp add: filteredGallery_def)

theorem filteredGallery_spec_witness:
  "filteredGallery ALL_LABEL sampleItems = sampleItems \<and>
   filteredGallery (js ''UI'') sampleItems = [sampleItems ! 0, sampleItems ! 2] \<and>
   filteredGallery (js ''ui'') sampleItems = []"
proof -
  have n: "js ''UI'' \<noteq> ALL_LABEL \<and> js ''ui'' \<noteq> ALL_LABEL"
    by (simp add: ALL_LABEL_def js_def)
  have a: "filteredGallery ALL_LABEL sampleItems = sampleItems"
    using filteredGallery_spec [of sampleItems] by blast
  have u: "filteredGallery (js ''UI'') sampleItems =
      filter (\<lambda>item. category item = js ''UI'') sampleItems"
    using filteredGallery_spec [of sampleItems "js ''UI''"] n by blast
  have l: "filteredGallery (js ''ui'') sampleItems =
      filter (\<lambda>item. category item = js ''ui'') sampleItems"
    using filteredGallery_spec [of sampleItems "js ''ui''"] n by blast
  have "filter (\<lambda>item. category item = js ''UI'') sampleItems = [sampleItems ! 0, sampleItems ! 2]"
    by (simp add: sampleItems_def js_def)
  moreover have "filter (\<lambda>item. category item = js ''ui'') sampleItems = []"
    by (simp add: sampleItems_def js_def)
  ultimately show ?thesis using a u l by simp
qed

section \<open>Properties of the persistence of the admin preferences\<close>

lemma default_fields:
  "defaultState (js ''history'') = Some (JArr []) \<and> defaultState (js ''future'') = Some (JArr []) \<and>
   defaultState (js ''role'') = Some JNull \<and> defaultState (js ''authenticated'') = Some (JBool False)"
  by (simp add: defaultState_def js_def)

text \<open>On load the two stacks are empty, whatever is stored.\<close>

lemma adminInit_stacks:
  "adminInit raw (js ''history'') = Some (JArr []) \<and> adminInit raw (js ''future'') = Some (JArr [])"
  using default_fields by (cases raw) (simp_all add: adminInit_def js_def)

text \<open>What is stored has none of role, authenticated, history and future.\<close>

lemma toStore_keys: "toStore s = JObj ms \<Longrightarrow> fst ` set ms \<subseteq> set persistedKeys"
  by (auto simp add: toStore_def map_filter_def)

lemma persisted_not_session:
  "js ''role'' \<notin> set persistedKeys \<and> js ''authenticated'' \<notin> set persistedKeys \<and>
   js ''history'' \<notin> set persistedKeys \<and> js ''future'' \<notin> set persistedKeys"
  by (simp add: persistedKeys_def js_def)

lemma ownProps_toStore: "k \<notin> set persistedKeys \<Longrightarrow> ownProps (toStore s) k = None"
proof -
  assume k: "k \<notin> set persistedKeys"
  obtain ms where ms: "toStore s = JObj ms" by (simp add: toStore_def)
  then have "fst ` set ms \<subseteq> set persistedKeys" by (rule toStore_keys)
  with k have "k \<notin> fst ` set (rev ms)" by auto
  then have "map_of (rev ms) k = None" by (simp add: map_of_eq_None_iff)
  with ms show ?thesis by simp
qed

text \<open>
  A value the persistence effect wrote, a missing one and an unparsable one all load
  unauthenticated.
\<close>

lemma roundtrip_unauthenticated:
  "adminInit (Parsed (toStore s)) (js ''role'') = Some JNull \<and>
   adminInit (Parsed (toStore s)) (js ''authenticated'') = Some (JBool False)"
proof -
  have r: "ownProps (toStore s) (js ''role'') = None"
    using persisted_not_session by (intro ownProps_toStore) simp
  have a: "ownProps (toStore s) (js ''authenticated'') = None"
    using persisted_not_session by (intro ownProps_toStore) simp
  have n: "js ''role'' \<noteq> js ''history'' \<and> js ''role'' \<noteq> js ''future'' \<and>
      js ''authenticated'' \<noteq> js ''history'' \<and> js ''authenticated'' \<noteq> js ''future''"
    by (simp add: js_def)
  show ?thesis
    using r a n default_fields by (simp add: adminInit_def map_add_def)
qed

lemma fallback_default: "adminInit Unparsable = defaultState \<and> adminInit Absent = defaultState"
  by (simp add: adminInit_def)

text \<open>
  C7: what is persisted never holds role, authenticated, history or future, and on load the
  stacks are empty and the session is unauthenticated (role null, authenticated false) for
  every persisted value. The initialiser resets history and future after merging the parsed
  value, but not role and authenticated: a stored object with the members role "admin" and
  authenticated true parses, and the state it loads is authenticated as admin.
\<close>

theorem adminInit_stored_session:
  "adminInit (Parsed (JObj [(js ''role'', JStr (js ''admin'')), (js ''authenticated'', JBool True)]))
     (js ''authenticated'') = Some (JBool True) \<and>
   adminInit (Parsed (JObj [(js ''role'', JStr (js ''admin'')), (js ''authenticated'', JBool True)]))
     (js ''role'') = Some (JStr (js ''admin'')) \<and>
   adminInit (Parsed (JObj [(js ''role'', JStr (js ''admin'')), (js ''authenticated'', JBool True)]))
     (js ''history'') = Some (JArr [])"
  by (simp add: adminInit_def js_def map_add_def)

end
